theory Spec2Isabelle
  imports Complex_Main
begin

section \<open>JavaScript numbers\<close>

text \<open>
  The metrics engine of \<^verbatim>\<open>server/src/metrics.js\<close> computes with JavaScript numbers.
  Durations and timestamps are differences and values of \<^verbatim>\<open>Date.now()\<close>, hence integers;
  quotients are modelled as exact rationals, and the non-finite results of a JavaScript
  division (\<^verbatim>\<open>x / 0\<close>, \<^verbatim>\<open>0 / 0\<close>) are kept as values of their own, so that
  "the result is a finite number" is a statement that can fail. The rounding error of the
  binary floating-point operations is not modelled. For the index of the percentile this
  loses nothing: the double nearest to 0.95 lies below 0.95 and \<open>0.95 \<times> n\<close> is a multiple of
  1/20, so the rounded product has the ceiling of the exact one for every length an array
  can have.
\<close>

datatype jsnum = Num rat | Infinity | NegInfinity | NaN

definition js_div :: "rat \<Rightarrow> rat \<Rightarrow> jsnum" where
  "js_div a b =
     (if b = 0 then (if a = 0 then NaN else if 0 < a then Infinity else NegInfinity)
      else Num (a / b))"

fun js_times :: "jsnum \<Rightarrow> rat \<Rightarrow> jsnum" where
  "js_times (Num a) c = Num (a * c)"
| "js_times Infinity c = (if c = 0 then NaN else if 0 < c then Infinity else NegInfinity)"
| "js_times NegInfinity c = (if c = 0 then NaN else if 0 < c then NegInfinity else Infinity)"
| "js_times NaN c = NaN"

definition Math_round :: "rat \<Rightarrow> int" where
  "Math_round x = \<lfloor>x + 1 / 2\<rfloor>"

definition Math_ceil :: "rat \<Rightarrow> int" where
  "Math_ceil x = \<lceil>x\<rceil>"

text \<open>\<^verbatim>\<open>Math.round(x * 100) / 100\<close>, the rounding of every numeric field of the snapshot.\<close>

fun round2 :: "jsnum \<Rightarrow> jsnum" where
  "round2 (Num x) = Num (of_int (Math_round (x * 100)) / 100)"
| "round2 Infinity = Infinity"
| "round2 NegInfinity = NegInfinity"
| "round2 NaN = NaN"

section \<open>The metrics store\<close>

record request_sample =
  http_method :: string
  path :: string
  duration :: int
  timestamp :: int
  statusCode :: int

record query_sample =
  query :: string
  q_duration :: int
  q_timestamp :: int

record metrics =
  requests :: "request_sample list"
  dbQueries :: "query_sample list"
  cacheHits :: nat
  cacheMisses :: nat

text \<open>The recorders; \<open>now\<close> is the value of \<^verbatim>\<open>Date.now()\<close> at the call.\<close>

definition recordRequest :: "string \<Rightarrow> string \<Rightarrow> int \<Rightarrow> int \<Rightarrow> int \<Rightarrow> metrics \<Rightarrow> metrics" where
  "recordRequest req_method req_path res_statusCode dur now m =
     m\<lparr>requests := requests m @
          [\<lparr>http_method = req_method, path = req_path, duration = dur, timestamp = now,
            statusCode = res_statusCode\<rparr>]\<rparr>"




section \<open>The statistics\<close>

text \<open>
  \<^verbatim>\<open>percentile(arr, p)\<close>. An index below 0 reads \<^verbatim>\<open>undefined\<close> from a JavaScript array,
  which is \<open>None\<close> here.
\<close>

definition percentile :: "int list \<Rightarrow> rat \<Rightarrow> int option" where
  "percentile arr p =
     (if length arr = 0 then Some 0
      else let idx = Math_ceil (p * of_nat (length arr)) - 1;
               i = min idx (int (length arr) - 1)
           in if i < 0 then None else Some (arr ! nat i))"

record stats =
  requestCount :: nat
  errorCount :: nat
  avgLatency :: jsnum
  p95Latency :: jsnum
  throughput :: jsnum
  avgDbTime :: jsnum
  cacheHitRatio :: jsnum

definition calculateStats :: "metrics \<Rightarrow> stats" where
  "calculateStats m =
     (if length (requests m) = 0 then
        \<lparr>requestCount = 0, errorCount = 0, avgLatency = Num 0, p95Latency = Num 0,
         throughput = Num 0, avgDbTime = Num 0, cacheHitRatio = Num 0\<rparr>
      else
        let durations = sort (map duration (requests m));
            avgLatency' = js_div (of_int (sum_list durations)) (of_nat (length durations));
            p95Latency' = (case percentile durations (95 / 100) of
                             None \<Rightarrow> NaN | Some v \<Rightarrow> Num (of_int v));
            dbDurations = map q_duration (dbQueries m);
            avgDbTime' = (if length dbDurations > 0
                          then js_div (of_int (sum_list dbDurations)) (of_nat (length dbDurations))
                          else Num 0);
            totalCacheOps = cacheHits m + cacheMisses m;
            cacheHitRatio' = (if totalCacheOps > 0
                              then js_times (js_div (of_nat (cacheHits m)) (of_nat totalCacheOps)) 100
                              else Num 0);
            throughput' =
              (if length (requests m) \<ge> 2 then
                 let timeSpan = of_int (timestamp (requests m ! (length (requests m) - 1))
                                        - timestamp (requests m ! 0)) / 1000
                 in if timeSpan > 0 then js_div (of_nat (length (requests m))) timeSpan else Num 0
               else Num 0);
            errorCount' = length (filter (\<lambda>r. statusCode r \<ge> 400) (requests m))
        in \<lparr>requestCount = length (requests m), errorCount = errorCount',
            avgLatency = round2 avgLatency', p95Latency = round2 p95Latency',
            throughput = round2 throughput', avgDbTime = round2 avgDbTime',
            cacheHitRatio = round2 cacheHitRatio'\<rparr>)"


section \<open>The mode selector\<close>

text \<open>
  \<^verbatim>\<open>process.env\<close> is a map from variable names to strings. Each route module resolves
  its capability once, when it is loaded:
  \<^verbatim>\<open>process.env.ENABLE_X === '1' || process.env.APP_VERSION === 'optimized'\<close>
  (\<^verbatim>\<open>redis.js\<close> and \<^verbatim>\<open>routes/recommendations.js\<close> for the cache,
  \<^verbatim>\<open>routes/dashboard.js\<close> for the batched read, \<^verbatim>\<open>routes/products.js\<close> for the search).
  The checkout route has no variable of its own: it reads
  \<^verbatim>\<open>process.env.APP_VERSION || 'baseline'\<close> and compares it with \<^verbatim>\<open>'optimized'\<close>.
\<close>

type_synonym env = "string \<rightharpoonup> string"

definition ENABLE_REDIS_CACHE :: "env \<Rightarrow> bool" where
  "ENABLE_REDIS_CACHE e \<longleftrightarrow>
     e ''ENABLE_REDIS_CACHE'' = Some ''1'' \<or> e ''APP_VERSION'' = Some ''optimized''"

definition ENABLE_BATCH_DASHBOARD :: "env \<Rightarrow> bool" where
  "ENABLE_BATCH_DASHBOARD e \<longleftrightarrow>
     e ''ENABLE_BATCH_DASHBOARD'' = Some ''1'' \<or> e ''APP_VERSION'' = Some ''optimized''"

definition ENABLE_OPT_SEARCH :: "env \<Rightarrow> bool" where
  "ENABLE_OPT_SEARCH e \<longleftrightarrow>
     e ''ENABLE_OPT_SEARCH'' = Some ''1'' \<or> e ''APP_VERSION'' = Some ''optimized''"

definition APP_VERSION :: "env \<Rightarrow> string" where
  "APP_VERSION e =
     (case e ''APP_VERSION'' of
        None \<Rightarrow> ''baseline''
      | Some v \<Rightarrow> if v = [] then ''baseline'' else v)"

text \<open>The branch of \<^verbatim>\<open>routes/checkout.js\<close> that is installed: the transactional,
  batched write exactly when \<open>APP_VERSION\<close> is \<^verbatim>\<open>'optimized'\<close>.\<close>

definition checkout_is_optimized :: "env \<Rightarrow> bool" where
  "checkout_is_optimized e \<longleftrightarrow> APP_VERSION e = ''optimized''"

section \<open>Template literals\<close>

text \<open>The decimal rendering of an integer, as \<^verbatim>\<open>`${n}`\<close> produces it.\<close>

function show_nat :: "nat \<Rightarrow> string" where
  "show_nat n =
     (if n < 10 then [''0123456789'' ! n]
      else show_nat (n div 10) @ [''0123456789'' ! (n mod 10)])"
  by pat_completeness auto
termination
  by (relation "measure id") auto

declare show_nat.simps [simp del]

definition show_int :: "int \<Rightarrow> string" where
  "show_int i = (if i < 0 then CHR ''-'' # show_nat (nat (- i)) else show_nat (nat i))"

section \<open>The data store\<close>

text \<open>
  The tables of \<^verbatim>\<open>db/schema.sql\<close> that the checkout route reads and writes. Of
  \<open>users\<close> only the keys matter (the target of \<^verbatim>\<open>orders.user_id REFERENCES users(id)\<close>),
  of \<open>products\<close> the key and the price. The surrogate key of \<open>order_items\<close> is never read
  by the code and is left out. \<open>orders_id_seq\<close> is the sequence behind
  \<^verbatim>\<open>orders.id SERIAL\<close>; PostgreSQL does not restore a sequence on \<^verbatim>\<open>ROLLBACK\<close>, so it
  lives beside the tables and not in them.
\<close>

record product_row =
  p_id :: int
  p_price :: rat

record order_row =
  o_id :: int
  o_user_id :: int
  o_total_amount :: rat
  o_status :: string

record order_item_row =
  oi_order_id :: int
  oi_product_id :: int
  oi_quantity :: int
  oi_price :: rat

record database =
  users :: "int list"
  products :: "product_row list"
  orders :: "order_row list"
  order_items :: "order_item_row list"

record pg =
  tables :: database
  orders_id_seq :: int

datatype db_error = OutOfRange | NumericOverflow | ForeignKeyViolation

text \<open>The value ranges of the column types \<^verbatim>\<open>INTEGER\<close> and \<^verbatim>\<open>DECIMAL(10, 2)\<close>
  (the latter after rounding to two decimals).\<close>

definition int4 :: "int \<Rightarrow> bool" where
  "int4 i \<longleftrightarrow> - 2147483648 \<le> i \<and> i \<le> 2147483647"

definition decimal_10_2 :: "rat \<Rightarrow> bool" where
  "decimal_10_2 x \<longleftrightarrow> \<bar>x\<bar> < 100000000 - 1 / 200"

text \<open>\<^verbatim>\<open>SELECT price FROM products WHERE id = $1\<close>: the rows, or the error the statement
  raises.\<close>

definition select_price :: "int \<Rightarrow> pg \<Rightarrow> db_error + rat list" where
  "select_price pid s =
     (if \<not> int4 pid then Inl OutOfRange
      else Inr (map p_price (filter (\<lambda>p. p_id p = pid) (products (tables s)))))"

text \<open>\<^verbatim>\<open>SELECT id, price FROM products WHERE id IN ($1, ..., $n)\<close>.\<close>

definition select_products_in :: "int list \<Rightarrow> pg \<Rightarrow> db_error + product_row list" where
  "select_products_in pids s =
     (if \<exists>pid \<in> set pids. \<not> int4 pid then Inl OutOfRange
      else Inr (filter (\<lambda>p. p_id p \<in> set pids) (products (tables s))))"

text \<open>
  \<^verbatim>\<open>INSERT INTO orders (user_id, total_amount, status) VALUES ($1, $2, $3) RETURNING id\<close>.
  A parameter outside its column type is rejected before the row is formed; a row that is
  formed takes the next value of the sequence, also when the foreign key then rejects it.
\<close>

definition insert_order :: "int \<Rightarrow> rat \<Rightarrow> string \<Rightarrow> pg \<Rightarrow> (db_error + int) \<times> pg" where
  "insert_order uid total_amount st s =
     (if \<not> int4 uid then (Inl OutOfRange, s)
      else if \<not> decimal_10_2 total_amount then (Inl NumericOverflow, s)
      else
        let new_id = orders_id_seq s;
            s1 = s\<lparr>orders_id_seq := new_id + 1\<rparr>
        in if uid \<notin> set (users (tables s)) then (Inl ForeignKeyViolation, s1)
           else (Inr new_id,
                 s1\<lparr>tables := (tables s1)\<lparr>orders := orders (tables s1) @
                      [\<lparr>o_id = new_id, o_user_id = uid, o_total_amount = total_amount,
                        o_status = st\<rparr>]\<rparr>\<rparr>))"

text \<open>The constraints of one row of \<open>order_items\<close>.\<close>

definition order_item_error :: "order_item_row \<Rightarrow> pg \<Rightarrow> db_error option" where
  "order_item_error r s =
     (if \<not> int4 (oi_order_id r) \<or> \<not> int4 (oi_product_id r) \<or> \<not> int4 (oi_quantity r)
      then Some OutOfRange
      else if \<not> decimal_10_2 (oi_price r) then Some NumericOverflow
      else if oi_order_id r \<notin> set (map o_id (orders (tables s)))
              \<or> oi_product_id r \<notin> set (map p_id (products (tables s)))
      then Some ForeignKeyViolation
      else None)"

text \<open>
  \<^verbatim>\<open>INSERT INTO order_items (order_id, product_id, quantity, price) VALUES (...), ..., (...)\<close>:
  one statement; if a row is rejected the statement raises that error and inserts nothing.
\<close>

definition insert_order_items :: "order_item_row list \<Rightarrow> pg \<Rightarrow> db_error option \<times> pg" where
  "insert_order_items rs s =
     (case List.map_filter (\<lambda>r. order_item_error r s) rs of
        e # _ \<Rightarrow> (Some e, s)
      | [] \<Rightarrow> (None, s\<lparr>tables := (tables s)\<lparr>order_items := order_items (tables s) @ rs\<rparr>\<rparr>))"

text \<open>
  A transaction on a client of the pool: \<^verbatim>\<open>BEGIN\<close> remembers the tables,
  \<^verbatim>\<open>ROLLBACK\<close> puts them back (without an open transaction it changes nothing),
  \<^verbatim>\<open>COMMIT\<close> keeps what the statements wrote.
\<close>

definition BEGIN :: "pg \<Rightarrow> database option" where
  "BEGIN s = Some (tables s)"

definition ROLLBACK :: "database option \<Rightarrow> pg \<Rightarrow> pg" where
  "ROLLBACK snapshot s = (case snapshot of None \<Rightarrow> s | Some t \<Rightarrow> s\<lparr>tables := t\<rparr>)"

section \<open>The cache\<close>

text \<open>
  The content of a recommendations response. \<^verbatim>\<open>{...product, score}\<close> extends the row by
  the score; the field \<open>cached\<close> of the response is \<open>None\<close> where the object has no such
  field. \<open>generatedAt\<close> is the instant of \<^verbatim>\<open>new Date()\<close> in milliseconds.
\<close>

record rec_row =
  r_id :: int
  r_name :: string
  r_price :: rat
  r_category_id :: int
  relevance_score :: rat
  popularity :: nat

record recommendation = rec_row +
  score :: rat

record rec_payload =
  recommendations :: "recommendation list"
  generatedAt :: int
  cached :: "bool option"

text \<open>
  \<^verbatim>\<open>redis.js\<close>: \<open>redis_client\<close> is \<^verbatim>\<open>null\<close> (\<open>None\<close>) unless the cache is enabled at
  start-up. An entry of the Redis server holds the stored value and the instant it expires;
  the value is the JSON text of a response, which \<^verbatim>\<open>JSON.parse\<close> turns back into the
  object that \<^verbatim>\<open>JSON.stringify\<close> was given, so the entry holds the object.
  \<open>isReady\<close> follows the connection: it is false while the client is disconnected and
  true again after it has reconnected, while the entries stay in the Redis server.
\<close>

record redis_client =
  isReady :: bool

record server =
  postgres :: pg
  redis_client :: "redis_client option"
  redis_data :: "string \<rightharpoonup> rec_payload \<times> int"
  metrics :: metrics

definition isRedisAvailable :: "server \<Rightarrow> bool" where
  "isRedisAvailable srv =
     (case redis_client srv of None \<Rightarrow> False | Some c \<Rightarrow> isReady c)"



definition redis_del :: "string \<Rightarrow> server \<Rightarrow> server" where
  "redis_del k srv = srv\<lparr>redis_data := (redis_data srv)(k := None)\<rparr>"

section \<open>HTTP responses\<close>

datatype 'a body = Json 'a | ErrorJson string

datatype 'a response = Response (res_status: nat) (res_body: "'a body")

section \<open>POST /checkout\<close>

text \<open>
  The request body \<^verbatim>\<open>{ userId, items }\<close>; a field that is absent is \<open>None\<close>.
  Identifiers and quantities are integers.
\<close>

record item =
  productId :: int
  quantity :: int

record checkout_request =
  userId :: "int option"
  items :: "item list option"

record checkout_result =
  orderId :: int
  total_sum :: rat
  status :: string

datatype js_error = DbError db_error | Error string | TypeError

text \<open>
  \<^verbatim>\<open>!userId || !items || !Array.isArray(items) || items.length === 0\<close>, the guard of both
  branches.
\<close>

definition invalid_request :: "checkout_request \<Rightarrow> bool" where
  "invalid_request req \<longleftrightarrow>
     (case userId req of None \<Rightarrow> True | Some u \<Rightarrow> u = 0) \<or>
     (case items req of None \<Rightarrow> True | Some its \<Rightarrow> length its = 0)"

text \<open>\<^verbatim>\<open>`recommendations:${userId}`\<close>, the cache key of both routes.\<close>

definition cacheKey :: "int \<Rightarrow> string" where
  "cacheKey uid = ''recommendations:'' @ show_int uid"

subsection \<open>The optimized branch\<close>

text \<open>
  \<^verbatim>\<open>new Map(productsResult.rows.map(p => [p.id, parseFloat(p.price)]))\<close>: a later pair
  replaces an earlier one with the same key.
\<close>

definition productMap_of :: "product_row list \<Rightarrow> int \<rightharpoonup> rat" where
  "productMap_of rows = map_of (rev (map (\<lambda>p. (p_id p, p_price p)) rows))"

text \<open>
  \<^verbatim>\<open>productMap.get(item.productId)\<close>. It is only called for items that passed
  \<^verbatim>\<open>productMap.has\<close>; the value for a missing key (\<^verbatim>\<open>undefined\<close> in JavaScript) is
  never used.
\<close>

definition productMap_get :: "(int \<rightharpoonup> rat) \<Rightarrow> int \<Rightarrow> rat" where
  "productMap_get productMap k = (case productMap k of Some v \<Rightarrow> v | None \<Rightarrow> 0)"

text \<open>
  The body of the \<^verbatim>\<open>try\<close> block after \<^verbatim>\<open>BEGIN\<close>, up to the response: the result is
  the value sent with \<^verbatim>\<open>res.json\<close>, or the exception that reaches \<^verbatim>\<open>catch\<close>, and the
  state of the server at that point. The statements fail where the schema makes them fail;
  taking a client from the pool, \<^verbatim>\<open>BEGIN\<close>, \<^verbatim>\<open>COMMIT\<close>, \<^verbatim>\<open>ROLLBACK\<close> and the calls
  to Redis are taken to succeed.
\<close>

definition optimized_try ::
  "int \<Rightarrow> item list \<Rightarrow> server \<Rightarrow> (js_error + checkout_result) \<times> server" where
  "optimized_try uid its srv =
     (let productIds = map productId its
      in case select_products_in productIds (postgres srv) of
           Inl e \<Rightarrow> (Inl (DbError e), srv)
         | Inr rows \<Rightarrow>
             let productMap = productMap_of rows
             in case find (\<lambda>it. productMap (productId it) = None) its of
                  Some it \<Rightarrow>
                    (Inl (Error (''Product '' @ show_int (productId it) @ '' not found'')), srv)
                | None \<Rightarrow>
                    let tot = foldl (\<lambda>sum it. sum + productMap_get productMap (productId it)
                                                   * of_int (quantity it)) 0 its
                    in case insert_order uid tot ''pending'' (postgres srv) of
                         (Inl e, s1) \<Rightarrow> (Inl (DbError e), srv\<lparr>postgres := s1\<rparr>)
                       | (Inr oid, s1) \<Rightarrow>
                           let params = map (\<lambda>it. \<lparr>oi_order_id = oid,
                                                   oi_product_id = productId it,
                                                   oi_quantity = quantity it,
                                                   oi_price = productMap_get productMap (productId it)\<rparr>)
                                            its
                           in case insert_order_items params s1 of
                                (Some e, s2) \<Rightarrow> (Inl (DbError e), srv\<lparr>postgres := s2\<rparr>)
                              | (None, s2) \<Rightarrow>
                                  let srv1 = srv\<lparr>postgres := s2\<rparr>;
                                      srv2 = (if isRedisAvailable srv1
                                              then redis_del (cacheKey uid) srv1 else srv1)
                                  in (Inr \<lparr>orderId = oid, total_sum = tot,
                                          status = ''pending''\<rparr>, srv2))"

definition checkout_optimized ::
  "checkout_request \<Rightarrow> server \<Rightarrow> checkout_result response \<times> server" where
  "checkout_optimized req srv =
     (case (userId req, items req) of
        (Some uid, Some its) \<Rightarrow>
          if invalid_request req then (Response 400 (ErrorJson ''Invalid request''), srv)
          else
            let snapshot = BEGIN (postgres srv)
            in (case optimized_try uid its srv of
                  (Inr result, srv1) \<Rightarrow> (Response 200 (Json result), srv1)
                | (Inl error, srv1) \<Rightarrow>
                    (Response 500 (ErrorJson ''Internal server error''),
                     srv1\<lparr>postgres := ROLLBACK snapshot (postgres srv1)\<rparr>))
      | _ \<Rightarrow> (Response 400 (ErrorJson ''Invalid request''), srv))"

subsection \<open>The baseline branch\<close>

datatype 'a flow = Continue 'a | Return "checkout_result response" | Throw js_error

text \<open>The first loop: one price query per item, adding up the total.\<close>

fun baseline_total :: "item list \<Rightarrow> rat \<Rightarrow> pg \<Rightarrow> rat flow" where
  "baseline_total [] tot s = Continue tot"
| "baseline_total (it # rest) tot s =
     (case select_price (productId it) s of
        Inl e \<Rightarrow> Throw (DbError e)
      | Inr rows \<Rightarrow>
          if length rows = 0
          then Return (Response 400
                 (ErrorJson (''Product '' @ show_int (productId it) @ '' not found'')))
          else baseline_total rest (tot + rows ! 0 * of_int (quantity it)) s)"

text \<open>
  The second loop: per item, the price query again and one insert. Each statement commits
  on its own, so the rows written before an exception stay.
\<close>

fun baseline_insert_items :: "int \<Rightarrow> item list \<Rightarrow> pg \<Rightarrow> js_error option \<times> pg" where
  "baseline_insert_items oid [] s = (None, s)"
| "baseline_insert_items oid (it # rest) s =
     (case select_price (productId it) s of
        Inl e \<Rightarrow> (Some (DbError e), s)
      | Inr rows \<Rightarrow>
          (case rows of
             [] \<Rightarrow> (Some TypeError, s)
           | price # _ \<Rightarrow>
               (case insert_order_items
                       [\<lparr>oi_order_id = oid, oi_product_id = productId it,
                         oi_quantity = quantity it, oi_price = price\<rparr>] s of
                  (Some e, s1) \<Rightarrow> (Some (DbError e), s1)
                | (None, s1) \<Rightarrow> baseline_insert_items oid rest s1)))"

definition checkout_baseline ::
  "checkout_request \<Rightarrow> server \<Rightarrow> checkout_result response \<times> server" where
  "checkout_baseline req srv =
     (case (userId req, items req) of
        (Some uid, Some its) \<Rightarrow>
          if invalid_request req then (Response 400 (ErrorJson ''Invalid request''), srv)
          else
            (case baseline_total its 0 (postgres srv) of
               Return r \<Rightarrow> (r, srv)
             | Throw e \<Rightarrow> (Response 500 (ErrorJson ''Internal server error''), srv)
             | Continue tot \<Rightarrow>
                 (case insert_order uid tot ''pending'' (postgres srv) of
                    (Inl e, s1) \<Rightarrow>
                      (Response 500 (ErrorJson ''Internal server error''), srv\<lparr>postgres := s1\<rparr>)
                  | (Inr oid, s1) \<Rightarrow>
                      (case baseline_insert_items oid its s1 of
                         (Some e, s2) \<Rightarrow>
                           (Response 500 (ErrorJson ''Internal server error''),
                            srv\<lparr>postgres := s2\<rparr>)
                       | (None, s2) \<Rightarrow>
                           (Response 200 (Json \<lparr>orderId = oid, total_sum = tot,
                                                status = ''pending''\<rparr>),
                            srv\<lparr>postgres := s2\<rparr>))))
      | _ \<Rightarrow> (Response 400 (ErrorJson ''Invalid request''), srv))"

section \<open>GET /recommendations/:userId\<close>





section \<open>Example data\<close>

text \<open>
  A small store used to run the handlers on concrete requests: two users, four products
  (none with id 999), no orders yet, and a Redis client that is connected.
\<close>

definition example_tables :: database where
  "example_tables =
     \<lparr>users = [1, 2],
      products = [\<lparr>p_id = 1, p_price = 10\<rparr>, \<lparr>p_id = 2, p_price = 5 / 2\<rparr>,
                  \<lparr>p_id = 4, p_price = 1 / 100\<rparr>, \<lparr>p_id = 5, p_price = 3\<rparr>],
      orders = [], order_items = []\<rparr>"

definition example_server :: server where
  "example_server =
     \<lparr>postgres = \<lparr>tables = example_tables, orders_id_seq = 1\<rparr>,
      redis_client = Some \<lparr>isReady = True\<rparr>,
      redis_data = Map.empty,
      metrics = \<lparr>requests = [], dbQueries = [], cacheHits = 0, cacheMisses = 0\<rparr>\<rparr>"

text \<open>Five items; the third references a product that does not exist.\<close>

definition five_items :: "item list" where
  "five_items =
     [\<lparr>productId = 1, quantity = 1\<rparr>, \<lparr>productId = 2, quantity = 2\<rparr>,
      \<lparr>productId = 999, quantity = 1\<rparr>, \<lparr>productId = 4, quantity = 1\<rparr>,
      \<lparr>productId = 5, quantity = 1\<rparr>]"



section \<open>Properties of the statistics\<close>

subsection \<open>Rounding\<close>



lemma ceiling_rat_numeral:
  "\<lceil>numeral a / numeral b :: rat\<rceil> = - (- numeral a div numeral b)"
proof -
  have "\<lfloor>of_int (- numeral a) / of_int (numeral b) :: rat\<rfloor> = - numeral a div numeral b"
    by (rule floor_divide_of_int_eq)
  then show ?thesis by (simp add: ceiling_def)
qed

lemma Math_round_of_int_100: "Math_round (of_int d * 100) = d * 100"
proof -
  have "(of_int d * 100 + 1 / 2 :: rat) = of_int (d * 100) + 1 / 2" by simp
  then have "\<lfloor>of_int d * 100 + 1 / 2 :: rat\<rfloor> = \<lfloor>of_int (d * 100) + 1 / 2 :: rat\<rfloor>" by simp
  also have "\<dots> = d * 100" by (rule floor_unique) simp_all
  finally show ?thesis by (simp add: Math_round_def)
qed

text \<open>A whole number of milliseconds is not changed by the rounding to two decimals.\<close>

lemma round2_of_int: "round2 (Num (of_int d)) = Num (of_int d)"
  by (simp add: Math_round_of_int_100)



subsection \<open>Ranks in a sorted list\<close>

lemma sorted_below_rank:
  fixes ys :: "int list"
  assumes "sorted ys" and "k < length ys"
  shows "length (filter (\<lambda>d. d < ys ! k) ys) \<le> k"
proof -
  have split: "ys = take k ys @ drop k ys" by simp
  have "\<forall>d \<in> set (drop k ys). \<not> d < ys ! k"
  proof
    fix d assume "d \<in> set (drop k ys)"
    then obtain j where j: "j < length (drop k ys)" "d = drop k ys ! j"
      by (auto simp: in_set_conv_nth)
    then have "d = ys ! (k + j)" and "k + j < length ys" using assms(2) by auto
    with assms(1) have "ys ! k \<le> d" by (simp add: sorted_nth_mono)
    then show "\<not> d < ys ! k" by simp
  qed
  then have "filter (\<lambda>d. d < ys ! k) (drop k ys) = []" by (simp add: filter_empty_conv)
  then have "filter (\<lambda>d. d < ys ! k) ys = filter (\<lambda>d. d < ys ! k) (take k ys)"
    by (subst split) (simp only: filter_append append_Nil2)
  moreover have "length (filter (\<lambda>d. d < ys ! k) (take k ys)) \<le> length (take k ys)"
    by (rule length_filter_le)
  ultimately show ?thesis by simp
qed

lemma sorted_upto_rank:
  fixes ys :: "int list"
  assumes "sorted ys" and "k < length ys"
  shows "k < length (filter (\<lambda>d. d \<le> ys ! k) ys)"
proof -
  have split: "ys = take (Suc k) ys @ drop (Suc k) ys" by simp
  have "\<forall>d \<in> set (take (Suc k) ys). d \<le> ys ! k"
  proof
    fix d assume "d \<in> set (take (Suc k) ys)"
    then obtain j where j: "j < Suc k" "d = ys ! j"
      using assms(2) by (auto simp: in_set_conv_nth)
    with assms show "d \<le> ys ! k" by (simp add: sorted_nth_mono)
  qed
  then have "filter (\<lambda>d. d \<le> ys ! k) (take (Suc k) ys) = take (Suc k) ys" by simp
  then have "length (filter (\<lambda>d. d \<le> ys ! k) ys) =
             Suc k + length (filter (\<lambda>d. d \<le> ys ! k) (drop (Suc k) ys))"
    using assms(2) by (subst split) (simp only: filter_append length_append, simp)
  then show ?thesis by simp
qed

lemma length_filter_sort:
  fixes xs :: "int list"
  shows "length (filter P (sort xs)) = length (filter P xs)"
  by (simp add: filter_sort)

subsection \<open>The 95th percentile\<close>

lemma nat_index_in_range: "0 \<le> (c::int) \<Longrightarrow> c \<le> int n - 1 \<Longrightarrow> nat c < n"
  by arith

lemma p95_index:
  assumes "0 < n"
  shows "0 \<le> Math_ceil (95 / 100 * of_nat n) - 1"
    and "Math_ceil (95 / 100 * of_nat n) - 1 \<le> int n - 1"
proof -
  have "(0::rat) < 95 / 100 * of_nat n" using assms by simp
  then have "0 < \<lceil>95 / 100 * of_nat n :: rat\<rceil>" by (simp only: less_ceiling_iff of_int_0)
  then show "0 \<le> Math_ceil (95 / 100 * of_nat n) - 1" by (simp add: Math_ceil_def)
  have "(95 / 100 * of_nat n :: rat) \<le> of_int (int n)" by simp
  then have "\<lceil>95 / 100 * of_nat n :: rat\<rceil> \<le> int n" by (simp only: ceiling_le_iff)
  then show "Math_ceil (95 / 100 * of_nat n) - 1 \<le> int n - 1" by (simp add: Math_ceil_def)
qed

lemma p95Latency_nonempty:
  assumes "requests m \<noteq> []"
  shows "p95Latency (calculateStats m) =
           Num (of_int (sort (map duration (requests m))
                          ! nat (Math_ceil (95 / 100 * of_nat (length (requests m))) - 1)))"
proof -
  let ?n = "length (requests m)"
  have n: "0 < ?n" using assms by simp
  have min: "min (Math_ceil (95 / 100 * of_nat ?n) - 1) (int ?n - 1) = Math_ceil (95 / 100 * of_nat ?n) - 1"
    using p95_index(2) [OF n] by (simp only: min_def if_True)
  have nneg: "\<not> Math_ceil (95 / 100 * of_nat ?n) - 1 < 0"
    using p95_index(1) [OF n] by simp
  have "percentile (sort (map duration (requests m))) (95 / 100) =
          Some (sort (map duration (requests m)) ! nat (Math_ceil (95 / 100 * of_nat ?n) - 1))"
    using assms unfolding percentile_def Let_def by (simp only: length_sort length_map min nneg) simp
  then show ?thesis using assms
    unfolding calculateStats_def Let_def by (simp add: round2_of_int del: round2.simps)
qed


text \<open>The scenario of 50 requests with the durations 1, ..., 50 ms: the average is 25.50
  and the p95 is 48, the duration at index \<open>\<lceil>47.5\<rceil> - 1 = 47\<close>.\<close>

lemma stats_of_fifty_samples:
  "p95Latency (calculateStats \<lparr>requests =
       map (\<lambda>i. \<lparr>http_method = ''GET'', path = ''/p'', duration = i, timestamp = 10 * i,
                   statusCode = 200\<rparr>) [1..50],
      dbQueries = [], cacheHits = 0, cacheMisses = 0\<rparr>) = Num 48 \<and>
   avgLatency (calculateStats \<lparr>requests =
       map (\<lambda>i. \<lparr>http_method = ''GET'', path = ''/p'', duration = i, timestamp = 10 * i,
                   statusCode = 200\<rparr>) [1..50],
      dbQueries = [], cacheHits = 0, cacheMisses = 0\<rparr>) = Num (51 / 2)"
  by code_simp

text \<open>
  Claim C3. For a non-empty request series of \<open>N\<close> samples, the p95 latency of the snapshot
  is the duration at index \<open>\<lceil>0.95 N\<rceil> - 1\<close> of the durations sorted ascending. That index
  lies in \<open>[0, N - 1]\<close>, so the clamp of \<^verbatim>\<open>percentile\<close> never changes it. The value is the
  sample of that rank and not an interpolation: at most \<open>\<lceil>0.95 N\<rceil> - 1\<close> durations are
  smaller than it and at least \<open>\<lceil>0.95 N\<rceil>\<close> durations are smaller or equal.
\<close>

theorem p95_nearest_rank:
  assumes "requests m \<noteq> []"
  shows "let n = length (requests m);
             ds = map duration (requests m);
             i = min (\<lceil>95 / 100 * rat_of_nat n\<rceil> - 1) (int n - 1);
             v = sort ds ! nat i
         in 0 \<le> i \<and> i = \<lceil>95 / 100 * rat_of_nat n\<rceil> - 1 \<and>
            p95Latency (calculateStats m) = Num (of_int v) \<and>
            v \<in> set ds \<and>
            length (filter (\<lambda>d. d < v) ds) \<le> nat i \<and>
            nat i < length (filter (\<lambda>d. d \<le> v) ds)"
proof -
  let ?n = "length (requests m)"
  let ?ds = "map duration (requests m)"
  let ?c = "\<lceil>95 / 100 * rat_of_nat ?n\<rceil> - 1"
  have n: "0 < ?n" using assms by simp
  have lo: "0 \<le> ?c" using p95_index(1) [OF n] by (simp add: Math_ceil_def)
  have hi: "?c \<le> int ?n - 1" using p95_index(2) [OF n] by (simp add: Math_ceil_def)
  have i: "min ?c (int ?n - 1) = ?c" using hi by (simp only: min_def if_True)
  have "nat ?c < ?n" using lo hi by (rule nat_index_in_range)
  then have k: "nat ?c < length (sort ?ds)" by simp
  have srt: "sorted (sort ?ds)" by simp
  have val: "p95Latency (calculateStats m) = Num (of_int (sort ?ds ! nat ?c))"
    using p95Latency_nonempty [OF assms] by (simp add: Math_ceil_def)
  have "sort ?ds ! nat ?c \<in> set (sort ?ds)" using k by (rule nth_mem)
  then have mem: "sort ?ds ! nat ?c \<in> set ?ds" by simp
  have below: "length (filter (\<lambda>d. d < sort ?ds ! nat ?c) ?ds) \<le> nat ?c"
    using sorted_below_rank [OF srt k] by (simp only: length_filter_sort)
  have upto: "nat ?c < length (filter (\<lambda>d. d \<le> sort ?ds ! nat ?c) ?ds)"
    using sorted_upto_rank [OF srt k] by (simp only: length_filter_sort)
  show ?thesis
    unfolding Let_def i using lo val mem below upto by blast
qed

theorem p95_nearest_rank_witness:
  "requests \<lparr>requests =
       [\<lparr>http_method = ''GET'', path = ''/a'', duration = 30, timestamp = 0, statusCode = 200\<rparr>,
        \<lparr>http_method = ''GET'', path = ''/b'', duration = 10, timestamp = 5, statusCode = 200\<rparr>,
        \<lparr>http_method = ''GET'', path = ''/c'', duration = 20, timestamp = 9, statusCode = 200\<rparr>],
      dbQueries = [], cacheHits = 0, cacheMisses = 0\<rparr> \<noteq> [] \<and>
   p95Latency (calculateStats \<lparr>requests =
       [\<lparr>http_method = ''GET'', path = ''/a'', duration = 30, timestamp = 0, statusCode = 200\<rparr>,
        \<lparr>http_method = ''GET'', path = ''/b'', duration = 10, timestamp = 5, statusCode = 200\<rparr>,
        \<lparr>http_method = ''GET'', path = ''/c'', duration = 20, timestamp = 9, statusCode = 200\<rparr>],
      dbQueries = [], cacheHits = 0, cacheMisses = 0\<rparr>) = Num 30"
  using p95_nearest_rank [of "\<lparr>requests =
       [\<lparr>http_method = ''GET'', path = ''/a'', duration = 30, timestamp = 0, statusCode = 200\<rparr>,
        \<lparr>http_method = ''GET'', path = ''/b'', duration = 10, timestamp = 5, statusCode = 200\<rparr>,
        \<lparr>http_method = ''GET'', path = ''/c'', duration = 20, timestamp = 9, statusCode = 200\<rparr>],
      dbQueries = [], cacheHits = 0, cacheMisses = 0\<rparr>"]
  by (simp add: Let_def ceiling_rat_numeral)


subsection \<open>The empty request series\<close>

text \<open>
  Claim C10. When no request sample has been recorded, every field of the snapshot is 0,
  whatever query samples and cache counters the store holds: \<open>avgDbTime\<close> and
  \<open>cacheHitRatio\<close> are 0 as well, and the snapshot does not depend on them.
\<close>

theorem calculateStats_no_requests:
  assumes "requests m = []"
  shows "calculateStats m =
           \<lparr>requestCount = 0, errorCount = 0, avgLatency = Num 0, p95Latency = Num 0,
            throughput = Num 0, avgDbTime = Num 0, cacheHitRatio = Num 0\<rparr>"
  using assms by (simp add: calculateStats_def)

theorem calculateStats_no_requests_witness:
  "requests \<lparr>requests = [],
             dbQueries = [\<lparr>query = ''SELECT 1'', q_duration = 12, q_timestamp = 40\<rparr>],
             cacheHits = 3, cacheMisses = 7\<rparr> = [] \<and>
   avgDbTime (calculateStats \<lparr>requests = [],
             dbQueries = [\<lparr>query = ''SELECT 1'', q_duration = 12, q_timestamp = 40\<rparr>],
             cacheHits = 3, cacheMisses = 7\<rparr>) = Num 0 \<and>
   cacheHitRatio (calculateStats \<lparr>requests = [],
             dbQueries = [\<lparr>query = ''SELECT 1'', q_duration = 12, q_timestamp = 40\<rparr>],
             cacheHits = 3, cacheMisses = 7\<rparr>) = Num 0"
  using calculateStats_no_requests [of "\<lparr>requests = [],
             dbQueries = [\<lparr>query = ''SELECT 1'', q_duration = 12, q_timestamp = 40\<rparr>],
             cacheHits = 3, cacheMisses = 7\<rparr>"]
  by simp

subsection \<open>The cache hit ratio\<close>





subsection \<open>Throughput\<close>





section \<open>Properties of the mode selector\<close>

text \<open>
  Claim C6, as the claim states it, fails: with \<^verbatim>\<open>APP_VERSION=optimized\<close> and the
  override \<^verbatim>\<open>ENABLE_REDIS_CACHE=0\<close> the cache is enabled, so the resolved capability is
  not the value of the override.
\<close>

theorem override_counterexample:
  "ENABLE_REDIS_CACHE [''APP_VERSION'' \<mapsto> ''optimized'', ''ENABLE_REDIS_CACHE'' \<mapsto> ''0'']
     \<noteq> ([''APP_VERSION'' \<mapsto> ''optimized'', ''ENABLE_REDIS_CACHE'' \<mapsto> ''0'']
            ''ENABLE_REDIS_CACHE'' = Some ''1'')"
  by (simp add: ENABLE_REDIS_CACHE_def)

text \<open>
  Claim C6, amended. An override set to \<^verbatim>\<open>'1'\<close> enables its capability (cache, batched
  dashboard read, optimized search) whatever the blanket mode is. An override that is unset
  or set to any other value leaves the capability at the default of the blanket mode: enabled
  exactly when \<^verbatim>\<open>APP_VERSION\<close> is \<^verbatim>\<open>'optimized'\<close>; it cannot disable what the optimized
  mode enables. The batched, transactional write has no override and follows
  \<^verbatim>\<open>APP_VERSION\<close> alone.
\<close>

theorem override_only_enables:
  "(e ''ENABLE_REDIS_CACHE'' = Some ''1'' \<longrightarrow> ENABLE_REDIS_CACHE e) \<and>
   (e ''ENABLE_BATCH_DASHBOARD'' = Some ''1'' \<longrightarrow> ENABLE_BATCH_DASHBOARD e) \<and>
   (e ''ENABLE_OPT_SEARCH'' = Some ''1'' \<longrightarrow> ENABLE_OPT_SEARCH e) \<and>
   (e ''ENABLE_REDIS_CACHE'' \<noteq> Some ''1'' \<longrightarrow>
      ENABLE_REDIS_CACHE e = (e ''APP_VERSION'' = Some ''optimized'')) \<and>
   (e ''ENABLE_BATCH_DASHBOARD'' \<noteq> Some ''1'' \<longrightarrow>
      ENABLE_BATCH_DASHBOARD e = (e ''APP_VERSION'' = Some ''optimized'')) \<and>
   (e ''ENABLE_OPT_SEARCH'' \<noteq> Some ''1'' \<longrightarrow>
      ENABLE_OPT_SEARCH e = (e ''APP_VERSION'' = Some ''optimized'')) \<and>
   checkout_is_optimized e = (e ''APP_VERSION'' = Some ''optimized'')"
  by (auto simp: ENABLE_REDIS_CACHE_def ENABLE_BATCH_DASHBOARD_def ENABLE_OPT_SEARCH_def
      checkout_is_optimized_def APP_VERSION_def split: option.splits)

theorem override_only_enables_witness:
  "([''APP_VERSION'' \<mapsto> ''baseline'', ''ENABLE_REDIS_CACHE'' \<mapsto> ''1'',
     ''ENABLE_BATCH_DASHBOARD'' \<mapsto> ''1'', ''ENABLE_OPT_SEARCH'' \<mapsto> ''1'']
      ''ENABLE_REDIS_CACHE'' = Some ''1'' \<and>
    ENABLE_REDIS_CACHE [''APP_VERSION'' \<mapsto> ''baseline'', ''ENABLE_REDIS_CACHE'' \<mapsto> ''1'',
      ''ENABLE_BATCH_DASHBOARD'' \<mapsto> ''1'', ''ENABLE_OPT_SEARCH'' \<mapsto> ''1''] \<and>
    ENABLE_BATCH_DASHBOARD [''APP_VERSION'' \<mapsto> ''baseline'', ''ENABLE_REDIS_CACHE'' \<mapsto> ''1'',
      ''ENABLE_BATCH_DASHBOARD'' \<mapsto> ''1'', ''ENABLE_OPT_SEARCH'' \<mapsto> ''1''] \<and>
    ENABLE_OPT_SEARCH [''APP_VERSION'' \<mapsto> ''baseline'', ''ENABLE_REDIS_CACHE'' \<mapsto> ''1'',
      ''ENABLE_BATCH_DASHBOARD'' \<mapsto> ''1'', ''ENABLE_OPT_SEARCH'' \<mapsto> ''1''] \<and>
    \<not> checkout_is_optimized [''APP_VERSION'' \<mapsto> ''baseline'', ''ENABLE_REDIS_CACHE'' \<mapsto> ''1'',
      ''ENABLE_BATCH_DASHBOARD'' \<mapsto> ''1'', ''ENABLE_OPT_SEARCH'' \<mapsto> ''1'']) \<and>
   ([''APP_VERSION'' \<mapsto> ''optimized'', ''ENABLE_REDIS_CACHE'' \<mapsto> ''0'',
     ''ENABLE_BATCH_DASHBOARD'' \<mapsto> ''0'', ''ENABLE_OPT_SEARCH'' \<mapsto> ''0'']
      ''ENABLE_REDIS_CACHE'' \<noteq> Some ''1'' \<and>
    ENABLE_REDIS_CACHE [''APP_VERSION'' \<mapsto> ''optimized'', ''ENABLE_REDIS_CACHE'' \<mapsto> ''0'',
      ''ENABLE_BATCH_DASHBOARD'' \<mapsto> ''0'', ''ENABLE_OPT_SEARCH'' \<mapsto> ''0''] \<and>
    ENABLE_BATCH_DASHBOARD [''APP_VERSION'' \<mapsto> ''optimized'', ''ENABLE_REDIS_CACHE'' \<mapsto> ''0'',
      ''ENABLE_BATCH_DASHBOARD'' \<mapsto> ''0'', ''ENABLE_OPT_SEARCH'' \<mapsto> ''0''] \<and>
    ENABLE_OPT_SEARCH [''APP_VERSION'' \<mapsto> ''optimized'', ''ENABLE_REDIS_CACHE'' \<mapsto> ''0'',
      ''ENABLE_BATCH_DASHBOARD'' \<mapsto> ''0'', ''ENABLE_OPT_SEARCH'' \<mapsto> ''0''] \<and>
    checkout_is_optimized [''APP_VERSION'' \<mapsto> ''optimized'', ''ENABLE_REDIS_CACHE'' \<mapsto> ''0'',
      ''ENABLE_BATCH_DASHBOARD'' \<mapsto> ''0'', ''ENABLE_OPT_SEARCH'' \<mapsto> ''0''])"
  using override_only_enables [of "[''APP_VERSION'' \<mapsto> ''baseline'', ''ENABLE_REDIS_CACHE'' \<mapsto> ''1'',
      ''ENABLE_BATCH_DASHBOARD'' \<mapsto> ''1'', ''ENABLE_OPT_SEARCH'' \<mapsto> ''1'']"]
    override_only_enables [of "[''APP_VERSION'' \<mapsto> ''optimized'', ''ENABLE_REDIS_CACHE'' \<mapsto> ''0'',
      ''ENABLE_BATCH_DASHBOARD'' \<mapsto> ''0'', ''ENABLE_OPT_SEARCH'' \<mapsto> ''0'']"]
  by simp

section \<open>Properties of the checkout\<close>

lemmas checkout_eval =
  checkout_optimized_def optimized_try_def checkout_baseline_def invalid_request_def
  select_products_in_def select_price_def insert_order_def insert_order_items_def
  order_item_error_def List.map_filter_def productMap_of_def productMap_get_def
  int4_def decimal_10_2_def BEGIN_def ROLLBACK_def isRedisAvailable_def redis_del_def
  show_int_def show_nat.simps Let_def
  example_server_def example_tables_def five_items_def

subsection \<open>The baseline branch and a product that does not exist\<close>

lemma select_price_rows:
  "int4 pid \<Longrightarrow>
     select_price pid s = Inr (map p_price (filter (\<lambda>p. p_id p = pid) (products (tables s))))"
  by (simp add: select_price_def)

lemma no_rows_iff:
  "filter (\<lambda>p. p_id p = pid) ps = [] \<longleftrightarrow> pid \<notin> p_id ` set ps"
  by (auto simp: filter_empty_conv)

text \<open>The first loop stops at the first item whose product is missing, with the 400 response.\<close>

lemma baseline_total_missing:
  assumes "\<forall>it \<in> set its. int4 (productId it)"
    and "\<exists>it \<in> set its. productId it \<notin> p_id ` set (products (tables s))"
  shows "\<exists>it \<in> set its. productId it \<notin> p_id ` set (products (tables s)) \<and>
           baseline_total its tot s =
             Return (Response 400
               (ErrorJson (''Product '' @ show_int (productId it) @ '' not found'')))"
  using assms
proof (induction its arbitrary: tot)
  case Nil
  then show ?case by simp
next
  case (Cons it rest)
  have rng: "int4 (productId it)" using Cons.prems(1) by simp
  show ?case
  proof (cases "productId it \<in> p_id ` set (products (tables s))")
    case False
    then have "filter (\<lambda>p. p_id p = productId it) (products (tables s)) = []"
      by (simp only: no_rows_iff not_False_eq_True)
    then have "baseline_total (it # rest) tot s =
             Return (Response 400
               (ErrorJson (''Product '' @ show_int (productId it) @ '' not found'')))"
      using rng by (simp add: select_price_rows)
    with False show ?thesis by auto
  next
    case True
    then have rows: "filter (\<lambda>p. p_id p = productId it) (products (tables s)) \<noteq> []"
      by (simp only: no_rows_iff) simp
    from True Cons.prems(2)
    have "\<exists>it' \<in> set rest. productId it' \<notin> p_id ` set (products (tables s))" by auto
    moreover have "\<forall>it' \<in> set rest. int4 (productId it')" using Cons.prems(1) by simp
    ultimately obtain it' where it': "it' \<in> set rest"
        "productId it' \<notin> p_id ` set (products (tables s))"
        "baseline_total rest
           (tot + map p_price (filter (\<lambda>p. p_id p = productId it) (products (tables s))) ! 0
                  * of_int (quantity it)) s =
           Return (Response 400
             (ErrorJson (''Product '' @ show_int (productId it') @ '' not found'')))"
      using Cons.IH by blast
    have "baseline_total (it # rest) tot s =
            Return (Response 400
              (ErrorJson (''Product '' @ show_int (productId it') @ '' not found'')))"
      using rng rows it'(3) by (simp add: select_price_rows)
    with it'(1,2) show ?thesis by auto
  qed
qed

text \<open>
  Claim C2, as the claim states it, fails: in the baseline branch the missing product of the
  third item is found by the first loop, which only reads; the handler returns before the
  order and before any item is inserted, so the first two items are not persisted.
\<close>

theorem checkout_baseline_counterexample:
  "order_items (tables (postgres (snd (checkout_baseline
       \<lparr>userId = Some 1, items = Some five_items\<rparr> example_server)))) = [] \<and>
   map oi_product_id (order_items (tables (postgres (snd (checkout_baseline
       \<lparr>userId = Some 1, items = Some five_items\<rparr> example_server))))) \<noteq> [1, 2]"
  by (simp add: checkout_eval)

text \<open>
  Claim C2, amended. In naive mode, a checkout whose items reference a product that does not
  exist (the third of five, say) is answered with the client error 400 naming such a
  product, found while the prices are read and before anything is written: neither the
  order nor any item is persisted, and the store is left as it was.
\<close>

theorem checkout_baseline_rejects_missing_product:
  assumes "userId req = Some uid" and "uid \<noteq> 0" and "items req = Some its"
    and "\<forall>it \<in> set its. int4 (productId it)"
    and "\<exists>it \<in> set its. productId it \<notin> p_id ` set (products (tables (postgres srv)))"
  shows "snd (checkout_baseline req srv) = srv \<and>
         (\<exists>it \<in> set its.
            productId it \<notin> p_id ` set (products (tables (postgres srv))) \<and>
            fst (checkout_baseline req srv) =
              Response 400 (ErrorJson (''Product '' @ show_int (productId it) @ '' not found'')))"
proof -
  from assms(5) have ne: "its \<noteq> []" by auto
  have valid: "\<not> invalid_request req"
    using assms(1-3) ne by (simp add: invalid_request_def)
  obtain it where it: "it \<in> set its"
      "productId it \<notin> p_id ` set (products (tables (postgres srv)))"
      "baseline_total its 0 (postgres srv) =
         Return (Response 400
           (ErrorJson (''Product '' @ show_int (productId it) @ '' not found'')))"
    using baseline_total_missing [OF assms(4,5)] by blast
  have "checkout_baseline req srv =
          (Response 400 (ErrorJson (''Product '' @ show_int (productId it) @ '' not found'')), srv)"
    using assms(1,3) valid it(3) by (simp add: checkout_baseline_def)
  with it(1,2) show ?thesis by auto
qed

theorem checkout_baseline_rejects_missing_product_witness:
  "userId \<lparr>userId = Some 1, items = Some five_items\<rparr> = Some 1 \<and> (1::int) \<noteq> 0 \<and>
   items \<lparr>userId = Some 1, items = Some five_items\<rparr> = Some five_items \<and>
   list_all (\<lambda>it. int4 (productId it)) five_items \<and>
   (\<exists>it \<in> set five_items.
      productId it \<notin> p_id ` set (products (tables (postgres example_server)))) \<and>
   snd (checkout_baseline \<lparr>userId = Some 1, items = Some five_items\<rparr> example_server)
     = example_server \<and>
   fst (checkout_baseline \<lparr>userId = Some 1, items = Some five_items\<rparr> example_server)
     = Response 400 (ErrorJson ''Product 999 not found'')"
  using checkout_baseline_rejects_missing_product
          [of "\<lparr>userId = Some 1, items = Some five_items\<rparr>" 1 five_items example_server]
  by (simp add: checkout_eval)

text \<open>
  The non-atomic write of the baseline branch shows when an insert of the second loop fails:
  here the quantity of the third item does not fit the column, and the order and the first
  two items stay in the store although the caller is told 500.
\<close>

lemma checkout_baseline_partial_write:
  "fst (checkout_baseline
          \<lparr>userId = Some 1,
           items = Some [\<lparr>productId = 1, quantity = 1\<rparr>, \<lparr>productId = 2, quantity = 2\<rparr>,
                         \<lparr>productId = 4, quantity = 3000000000\<rparr>,
                         \<lparr>productId = 5, quantity = 1\<rparr>]\<rparr> example_server)
     = Response 500 (ErrorJson ''Internal server error'') \<and>
   map o_id (orders (tables (postgres (snd (checkout_baseline
          \<lparr>userId = Some 1,
           items = Some [\<lparr>productId = 1, quantity = 1\<rparr>, \<lparr>productId = 2, quantity = 2\<rparr>,
                         \<lparr>productId = 4, quantity = 3000000000\<rparr>,
                         \<lparr>productId = 5, quantity = 1\<rparr>]\<rparr> example_server))))) = [1] \<and>
   map oi_product_id (order_items (tables (postgres (snd (checkout_baseline
          \<lparr>userId = Some 1,
           items = Some [\<lparr>productId = 1, quantity = 1\<rparr>, \<lparr>productId = 2, quantity = 2\<rparr>,
                         \<lparr>productId = 4, quantity = 3000000000\<rparr>,
                         \<lparr>productId = 5, quantity = 1\<rparr>]\<rparr> example_server))))) = [1, 2]"
  by (simp add: checkout_eval)

subsection \<open>The optimized branch\<close>




lemma productMap_of_None:
  "productMap_of rows k = None \<longleftrightarrow> k \<notin> p_id ` set rows"
  by (auto simp: productMap_of_def map_of_eq_None_iff image_iff)

text \<open>
  A missing product is found by the existence check, before any insert: the answer is 500
  and the state of the server, the sequence included, is the one before the request.
\<close>

lemma checkout_optimized_missing_product:
  assumes "userId req = Some uid" and "uid \<noteq> 0" and "items req = Some its"
    and "\<forall>it \<in> set its. int4 (productId it)"
    and "\<exists>it \<in> set its. productId it \<notin> p_id ` set (products (tables (postgres srv)))"
  shows "checkout_optimized req srv = (Response 500 (ErrorJson ''Internal server error''), srv)"
proof -
  from assms(5) have ne: "its \<noteq> []" by auto
  have valid: "\<not> invalid_request req"
    using assms(1-3) ne by (simp add: invalid_request_def)
  let ?rows = "filter (\<lambda>p. p_id p \<in> set (map productId its)) (products (tables (postgres srv)))"
  have sel: "select_products_in (map productId its) (postgres srv) = Inr ?rows"
    using assms(4) by (simp add: select_products_in_def)
  from assms(5) obtain it where it: "it \<in> set its"
    "productId it \<notin> p_id ` set (products (tables (postgres srv)))" by blast
  then have "productMap_of ?rows (productId it) = None"
    by (auto simp: productMap_of_None)
  with it(1) have "find (\<lambda>it. productMap_of ?rows (productId it) = None) its \<noteq> None"
    by (auto simp: find_None_iff)
  then obtain it' where
    "find (\<lambda>it. productMap_of ?rows (productId it) = None) its = Some it'" by auto
  then have "optimized_try uid its srv =
               (Inl (Error (''Product '' @ show_int (productId it') @ '' not found'')), srv)"
    using sel by (simp add: optimized_try_def Let_def)
  then show ?thesis
    using assms(1,3) valid by (simp add: checkout_optimized_def BEGIN_def ROLLBACK_def)
qed

text \<open>
  Claim C5. The optimized branch finds the missing product before it writes (the state of
  the server, the sequence included, is untouched), but the \<^verbatim>\<open>throw\<close> of the check lands in
  the \<^verbatim>\<open>catch\<close> of the handler, which answers 500 "Internal server error": the caller is
  told of a server error. The baseline branch answers the same request with the client
  error 400 "Product 999 not found".
\<close>

theorem checkout_optimized_missing_product_status:
  "fst (checkout_optimized
          \<lparr>userId = Some 1, items = Some [\<lparr>productId = 999, quantity = 1\<rparr>]\<rparr> example_server)
     = Response 500 (ErrorJson ''Internal server error'') \<and>
   snd (checkout_optimized
          \<lparr>userId = Some 1, items = Some [\<lparr>productId = 999, quantity = 1\<rparr>]\<rparr> example_server)
     = example_server \<and>
   fst (checkout_baseline
          \<lparr>userId = Some 1, items = Some [\<lparr>productId = 999, quantity = 1\<rparr>]\<rparr> example_server)
     = Response 400 (ErrorJson ''Product 999 not found'')"
  by (simp add: checkout_eval)

section \<open>Properties of the cache\<close>

lemma isRedisAvailable_metrics [simp]:
  "isRedisAvailable (srv\<lparr>metrics := m\<rparr>) = isRedisAvailable srv"
  by (simp add: isRedisAvailable_def)

lemma isRedisAvailable_postgres [simp]:
  "isRedisAvailable (srv\<lparr>postgres := s\<rparr>) = isRedisAvailable srv"
  by (simp add: isRedisAvailable_def)

lemma isRedisAvailable_redis_data [simp]:
  "isRedisAvailable (srv\<lparr>redis_data := r\<rparr>) = isRedisAvailable srv"
  by (simp add: isRedisAvailable_def)










subsection \<open>Invalidation by the checkout\<close>






end
